theory Spec2Isabelle
  imports Complex_Main "HOL-Library.AList"
begin

section \<open>The MoViNet classifier wrapper of \<^verbatim>\<open>model/movinet_model.py\<close>\<close>

text \<open>
  The module builds a Keras functional model around a 3D backbone: it makes one input
  placeholder for every named input spec, calls the backbone once, puts a classification
  head on the backbone's \<^verbatim>\<open>'head'\<close> endpoint and hands inputs and outputs to
  \<^verbatim>\<open>tf.keras.Model\<close>. Python dictionaries are association lists in insertion order
  (\<^verbatim>\<open>d[k]\<close> is \<open>map_of d k\<close>, \<^verbatim>\<open>d[k] = v\<close> is \<open>AList.update k v d\<close>), a float
  is a real number, an in-place update is the updated value returned; an exception
  is a value of \<open>py_error\<close>; the calls made to the backbone are recorded in the order
  they happen.
\<close>

subsection \<open>Values\<close>

datatype py_error = KeyError string | AttributeError string

type_synonym dim = "int option"

type_synonym shape = "dim list"

text \<open>
  A symbolic Keras tensor: its static shape, batch dimension first, and its name.
\<close>

record tensor =
  tshape :: shape
  tname :: string

text \<open>
  Modelled from the spec: \<^verbatim>\<open>tf.keras.Input\<close> belongs to the framework and is not
  part of the sources; the spec calls what it makes ``input placeholders''.
  \<^verbatim>\<open>tf.keras.Input(shape=s, name=n)\<close> is the placeholder named \<open>n\<close> whose shape is
  \<open>s\<close> behind an unknown batch dimension.
\<close>

definition keras_Input :: "shape \<Rightarrow> string \<Rightarrow> tensor" where
  "keras_Input s n = \<lparr>tshape = None # s, tname = n\<rparr>"

text \<open>
  Modelled from the spec: the class \<^verbatim>\<open>tf.keras.layers.InputSpec\<close> belongs to the
  framework and is not part of the sources; the spec speaks of ``named shape specs''. An
  input spec is the object \<^verbatim>\<open>InputSpec(shape=...)\<close> the module makes and whose
  \<^verbatim>\<open>shape\<close> it reads. A value of an \<^verbatim>\<open>input_specs\<close> mapping is such an object or,
  in a config read back from a saved model, the plain dictionary it was serialized to
  (\<open>'d\<close> is the type of these dictionaries).
\<close>

datatype input_spec = InputSpec (shape: shape)

datatype 'd spec_value = Spec input_spec | SpecDict 'd

type_synonym 'd specs = "(string \<times> 'd spec_value) list"

text \<open>
  An entry of the model's \<^verbatim>\<open>inputs\<close> mapping: a placeholder, or (for
  \<^verbatim>\<open>inputs['states']\<close> when states are output) a mapping of placeholders. The
  \<^verbatim>\<open>states\<close> argument of the backbone is \<^verbatim>\<open>inputs.get('states', {})\<close>, a value
  of the same kind.
\<close>

datatype input_entry = Placeholder tensor | StateDict "(string \<times> tensor) list"

record backbone_inputs =
  image :: tensor
  states :: input_entry

text \<open>
  The backbone collaborator, as far as this module uses it: the attributes
  \<^verbatim>\<open>_head_filters\<close> and \<^verbatim>\<open>_conv_type\<close>, and the call that maps
  \<^verbatim>\<open>dict(image=..., states=...)\<close> to \<^verbatim>\<open>(endpoints, states)\<close>.
\<close>

record backbone =
  bb_head_filters :: int
  bb_conv_type :: string
  bb_call :: "backbone_inputs \<Rightarrow> (string \<times> tensor) list \<times> (string \<times> tensor) list"

text \<open>The keyword arguments given to \<^verbatim>\<open>movinet_layers.ClassifierHead\<close>.\<close>

record 'r head_args =
  h_head_filters :: int
  h_num_classes :: int
  h_dropout_rate :: real
  h_kernel_initializer :: string
  h_kernel_regularizer :: "'r option"
  h_conv_type :: string

type_synonym 'r classifier_head = "'r head_args \<Rightarrow> tensor \<Rightarrow> tensor"

datatype model_outputs = Single tensor | WithStates tensor "(string \<times> tensor) list"

fun classification :: "model_outputs \<Rightarrow> tensor" where
  "classification (Single x) = x"
| "classification (WithStates x s) = x"

fun state_outputs :: "model_outputs \<Rightarrow> (string \<times> tensor) list option" where
  "state_outputs (Single x) = None"
| "state_outputs (WithStates x s) = Some s"

text \<open>
  The object a successful construction leaves behind: the private attributes set by
  \<^verbatim>\<open>__init__\<close>, and the \<^verbatim>\<open>inputs\<close>, \<^verbatim>\<open>outputs\<close> and remaining keyword
  arguments given to \<^verbatim>\<open>tf.keras.Model.__init__\<close>.
\<close>

record ('r, 'd) MovinetClassifier =
  self_num_classes :: int
  self_input_specs :: "'d specs"
  self_dropout_rate :: real
  self_kernel_initializer :: string
  self_kernel_regularizer :: "'r option"
  self_bias_regularizer :: "'r option"
  self_output_states :: bool
  self_setattr_tracking :: bool
  keras_inputs :: "(string \<times> input_entry) list"
  keras_outputs :: model_outputs
  keras_kwargs :: "(string \<times> string) list"
  self_backbone :: backbone

text \<open>
  What a run of the constructor did: the arguments of the backbone calls, in order, and
  the object or the exception it ended with.
\<close>

record ('r, 'd) construction =
  backbone_calls :: "backbone_inputs list"
  result :: "py_error + ('r, 'd) MovinetClassifier"

subsection \<open>The constructor\<close>

definition default_input_specs :: "'d specs" where
  "default_input_specs = [(''image'', Spec (InputSpec [None, None, None, None, Some 3]))]"

text \<open>\<^verbatim>\<open>if not input_specs: input_specs = {...}\<close>: \<^verbatim>\<open>None\<close> and the empty mapping are falsy.\<close>

fun effective_input_specs :: "'d specs option \<Rightarrow> 'd specs" where
  "effective_input_specs None = default_input_specs"
| "effective_input_specs (Some []) = default_input_specs"
| "effective_input_specs (Some (p # ps)) = p # ps"

text \<open>
  The comprehension \<^verbatim>\<open>{name: tf.keras.Input(shape=state.shape[1:], name=f'states/{name}')
  for name, state in input_specs.items()}\<close>. A plain dictionary has no attribute
  \<^verbatim>\<open>shape\<close>.
\<close>

fun make_inputs :: "'d specs \<Rightarrow> py_error + (string \<times> tensor) list" where
  "make_inputs [] = Inr []"
| "make_inputs ((name, SpecDict d) # rest) = Inl (AttributeError ''shape'')"
| "make_inputs ((name, Spec state) # rest) =
     (case make_inputs rest of
        Inl e \<Rightarrow> Inl e
      | Inr inputs \<Rightarrow> Inr ((name, keras_Input (drop 1 (shape state)) (''states/'' @ name)) # inputs))"

text \<open>\<^verbatim>\<open>inputs.get('states', {})\<close>\<close>

definition get_states :: "(string \<times> tensor) list \<Rightarrow> input_entry" where
  "get_states inputs = (case map_of inputs ''states'' of Some t \<Rightarrow> Placeholder t | None \<Rightarrow> StateDict [])"

text \<open>\<^verbatim>\<open>{k: tf.keras.Input(shape=v.shape[1:], name=k) for k, v in states.items()}\<close>\<close>

definition state_inputs :: "(string \<times> tensor) list \<Rightarrow> (string \<times> tensor) list" where
  "state_inputs sts = map (\<lambda>(k, v). (k, keras_Input (drop 1 (tshape v)) k)) sts"

definition MovinetClassifier_init ::
  "'r classifier_head \<Rightarrow> backbone \<Rightarrow> int \<Rightarrow> 'd specs option \<Rightarrow> real \<Rightarrow> string \<Rightarrow> 'r option \<Rightarrow>
   'r option \<Rightarrow> bool \<Rightarrow> (string \<times> string) list \<Rightarrow> ('r, 'd) construction" where
  "MovinetClassifier_init ClassifierHead backbone num_classes input_specs dropout_rate
     kernel_initializer kernel_regularizer bias_regularizer output_states kwargs =
   (let specs = effective_input_specs input_specs in
    case make_inputs specs of
      Inl e \<Rightarrow> \<lparr>backbone_calls = [], result = Inl e\<rparr>
    | Inr inputs \<Rightarrow>
        (let sts = get_states inputs in
         case map_of inputs ''image'' of
           None \<Rightarrow> \<lparr>backbone_calls = [], result = Inl (KeyError ''image'')\<rparr>
         | Some img \<Rightarrow>
             (let arg = \<lparr>image = img, states = sts\<rparr>;
                  (endpoints, sts') = bb_call backbone arg
              in case map_of endpoints ''head'' of
                   None \<Rightarrow> \<lparr>backbone_calls = [arg], result = Inl (KeyError ''head'')\<rparr>
                 | Some h \<Rightarrow>
                     (let x = ClassifierHead
                                \<lparr>h_head_filters = bb_head_filters backbone,
                                 h_num_classes = num_classes,
                                 h_dropout_rate = dropout_rate,
                                 h_kernel_initializer = kernel_initializer,
                                 h_kernel_regularizer = kernel_regularizer,
                                 h_conv_type = bb_conv_type backbone\<rparr> h;
                          inputs' = map (\<lambda>(name, t). (name, Placeholder t)) inputs;
                          inputs'' = (if output_states
                                      then AList.update ''states'' (StateDict (state_inputs sts')) inputs'
                                      else inputs');
                          outputs = (if output_states then WithStates x sts' else Single x)
                      in \<lparr>backbone_calls = [arg],
                          result = Inr \<lparr>self_num_classes = num_classes,
                                        self_input_specs = specs,
                                        self_dropout_rate = dropout_rate,
                                        self_kernel_initializer = kernel_initializer,
                                        self_kernel_regularizer = kernel_regularizer,
                                        self_bias_regularizer = bias_regularizer,
                                        self_output_states = output_states,
                                        self_setattr_tracking = False,
                                        keras_inputs = inputs'',
                                        keras_outputs = outputs,
                                        keras_kwargs = kwargs,
                                        self_backbone = backbone\<rparr>\<rparr>))))"

subsection \<open>Properties and serialization\<close>

text \<open>
  The property \<^verbatim>\<open>backbone\<close> (\<^verbatim>\<open>return self._backbone\<close>) and the property
  \<^verbatim>\<open>checkpoint_items\<close> (\<^verbatim>\<open>return dict(backbone=self.backbone)\<close>).
\<close>

definition backbone_property :: "('r, 'd) MovinetClassifier \<Rightarrow> backbone" where
  "backbone_property self = self_backbone self"

definition checkpoint_items :: "('r, 'd) MovinetClassifier \<Rightarrow> (string \<times> backbone) list" where
  "checkpoint_items self = [(''backbone'', backbone_property self)]"

text \<open>The config dictionary: the eight keys \<^verbatim>\<open>get_config\<close> writes.\<close>

record ('r, 'd) config =
  cfg_backbone :: backbone
  cfg_num_classes :: int
  cfg_input_specs :: "'d specs option"
  cfg_dropout_rate :: real
  cfg_kernel_initializer :: string
  cfg_kernel_regularizer :: "'r option"
  cfg_bias_regularizer :: "'r option"
  cfg_output_states :: bool

definition get_config :: "('r, 'd) MovinetClassifier \<Rightarrow> ('r, 'd) config" where
  "get_config self =
     \<lparr>cfg_backbone = self_backbone self,
      cfg_num_classes = self_num_classes self,
      cfg_input_specs = Some (self_input_specs self),
      cfg_dropout_rate = self_dropout_rate self,
      cfg_kernel_initializer = self_kernel_initializer self,
      cfg_kernel_regularizer = self_kernel_regularizer self,
      cfg_bias_regularizer = self_bias_regularizer self,
      cfg_output_states = self_output_states self\<rparr>"

text \<open>
  The loop of \<^verbatim>\<open>from_config\<close> over the names of \<^verbatim>\<open>config['input_specs']\<close>, on
  the mapping it updates in place: the mapping as the loop leaves it, and the exception
  that ended it, if any.
\<close>

fun deserialize_specs ::
  "('d \<Rightarrow> input_spec) \<Rightarrow> string list \<Rightarrow> 'd specs \<Rightarrow> 'd specs \<times> py_error option" where
  "deserialize_specs deserialize [] specs = (specs, None)"
| "deserialize_specs deserialize (name # names) specs =
     (case map_of specs name of
        None \<Rightarrow> (specs, Some (KeyError name))
      | Some (SpecDict d) \<Rightarrow>
          deserialize_specs deserialize names (AList.update name (Spec (deserialize d)) specs)
      | Some (Spec s) \<Rightarrow> deserialize_specs deserialize names specs)"

text \<open>
  \<^verbatim>\<open>from_config(config)\<close>: the config as the call leaves it (it is updated in place)
  and the run of \<^verbatim>\<open>cls(**config)\<close>.
\<close>

definition from_config ::
  "'r classifier_head \<Rightarrow> ('d \<Rightarrow> input_spec) \<Rightarrow> ('r, 'd) config \<Rightarrow>
   ('r, 'd) config \<times> ('r, 'd) construction" where
  "from_config ClassifierHead deserialize config =
     (let (config', err) =
            (case cfg_input_specs config of
               None \<Rightarrow> (config, None)
             | Some [] \<Rightarrow> (config, None)
             | Some (p # ps) \<Rightarrow>
                 (let (specs', e) = deserialize_specs deserialize (map fst (p # ps)) (p # ps)
                  in (config\<lparr>cfg_input_specs := Some specs'\<rparr>, e)))
      in case err of
           Some e \<Rightarrow> (config', \<lparr>backbone_calls = [], result = Inl e\<rparr>)
         | None \<Rightarrow>
             (config',
              MovinetClassifier_init ClassifierHead (cfg_backbone config') (cfg_num_classes config')
                (cfg_input_specs config') (cfg_dropout_rate config')
                (cfg_kernel_initializer config') (cfg_kernel_regularizer config')
                (cfg_bias_regularizer config') (cfg_output_states config') []))"

subsection \<open>The registered builder\<close>

text \<open>The fields of \<^verbatim>\<open>cfg.MovinetModel\<close> the builder reads.\<close>

record ('bc, 'na) MovinetModel =
  mc_backbone :: 'bc
  mc_norm_activation :: 'na
  mc_dropout_rate :: real

text \<open>The keyword arguments given to \<^verbatim>\<open>backbones.factory.build_backbone\<close>.\<close>

record ('bc, 'na, 'r) build_backbone_args =
  bb_input_specs :: input_spec
  bb_backbone_config :: 'bc
  bb_norm_activation_config :: 'na
  bb_l2_regularizer :: "'r option"

text \<open>
  The two \<^verbatim>\<open>logging.info\<close> lines of the builder (the second one, written only for a
  regularizer that is not \<^verbatim>\<open>None\<close>, shows the regularizer's own config), and what a
  run of the builder leaves: the lines logged and the run of the constructor.
\<close>

datatype 'r log_record = Building_num_classes int | Building_regularizer 'r

record ('r, 'd) build_result =
  logged :: "'r log_record list"
  built :: "('r, 'd) construction"

definition build_movinet_model ::
  "'r classifier_head \<Rightarrow> (('bc, 'na, 'r) build_backbone_args \<Rightarrow> backbone) \<Rightarrow>
   input_spec \<Rightarrow> ('bc, 'na) MovinetModel \<Rightarrow> int \<Rightarrow> 'r option \<Rightarrow> ('r, 'd) build_result" where
  "build_movinet_model ClassifierHead build_backbone input_specs model_config num_classes l2_regularizer =
     (let log = Building_num_classes num_classes #
                (case l2_regularizer of None \<Rightarrow> [] | Some r \<Rightarrow> [Building_regularizer r]);
          input_specs_dict = [(''image'', Spec input_specs)];
          backbone = build_backbone
                       \<lparr>bb_input_specs = input_specs,
                        bb_backbone_config = mc_backbone model_config,
                        bb_norm_activation_config = mc_norm_activation model_config,
                        bb_l2_regularizer = l2_regularizer\<rparr>;
          model = MovinetClassifier_init ClassifierHead backbone num_classes (Some input_specs_dict)
                    (mc_dropout_rate model_config) ''HeNormal'' l2_regularizer None False []
      in \<lparr>logged = log, built = model\<rparr>)"

subsection \<open>Collaborators that are not part of the sources\<close>

text \<open>
  Modelled from the spec: the model factory \<^verbatim>\<open>factory_3d\<close> is not part of the
  sources. The spec describes it as ``an external mapping from string name to
  model-builder function'', and the decorator on \<^verbatim>\<open>build_movinet_model\<close> as ``a
  registration call [that] exposes a builder function to an external factory keyed by the
  string \<^verbatim>\<open>'movinet'\<close>''.
\<close>

definition register_model_builder :: "string \<Rightarrow> 'f \<Rightarrow> (string \<rightharpoonup> 'f) \<Rightarrow> (string \<rightharpoonup> 'f)" where
  "register_model_builder key builder registry = registry(key \<mapsto> builder)"

definition lookup_model_builder :: "(string \<rightharpoonup> 'f) \<Rightarrow> string \<Rightarrow> 'f option" where
  "lookup_model_builder registry key = registry key"

text \<open>
  Loading the module runs \<^verbatim>\<open>@model_factory.register_model_builder('movinet')\<close> on
  the builder; the head constructor and the backbone factory are the module's imports.
\<close>

definition load_module ::
  "'r classifier_head \<Rightarrow> (('bc, 'na, 'r) build_backbone_args \<Rightarrow> backbone) \<Rightarrow>
   (string \<rightharpoonup> (input_spec \<Rightarrow> ('bc, 'na) MovinetModel \<Rightarrow> int \<Rightarrow> 'r option \<Rightarrow> ('r, 'd) build_result)) \<Rightarrow>
   (string \<rightharpoonup> (input_spec \<Rightarrow> ('bc, 'na) MovinetModel \<Rightarrow> int \<Rightarrow> 'r option \<Rightarrow> ('r, 'd) build_result))" where
  "load_module ClassifierHead build_backbone registry =
     register_model_builder ''movinet'' (build_movinet_model ClassifierHead build_backbone) registry"

text \<open>
  Modelled from the spec: \<^verbatim>\<open>movinet_layers.ClassifierHead\<close> is not part of the
  sources. The spec says of it only that it is ``a classification head transform'' applied
  ``to the backbone's head feature map'' and that a constructed model has ``output shape
  \<^verbatim>\<open>(num_classes,)\<close>'': the layer built with \<^verbatim>\<open>num_classes\<close> maps a feature map to
  a tensor of that shape behind the batch dimension.
\<close>

definition ClassifierHead_spec :: "'r classifier_head" where
  "ClassifierHead_spec args x = \<lparr>tshape = [None, Some (h_num_classes args)], tname = ''classifier_head''\<rparr>"

subsection \<open>Notions used in the statements\<close>

text \<open>The value is an \<^verbatim>\<open>InputSpec\<close> object (not \<^verbatim>\<open>isinstance(v, dict)\<close>).\<close>

fun is_spec :: "'d spec_value \<Rightarrow> bool" where
  "is_spec (Spec s) = True"
| "is_spec (SpecDict d) = False"

text \<open>
  A mapping as the signature of \<^verbatim>\<open>__init__\<close> declares it,
  \<^verbatim>\<open>Mapping[str, tf.keras.layers.InputSpec]\<close>: every value is a spec object.
\<close>

definition spec_mapping :: "'d specs \<Rightarrow> bool" where
  "spec_mapping specs = list_all (\<lambda>p. is_spec (snd p)) specs"

text \<open>A Python dictionary holds every key once.\<close>

definition is_dict :: "('k \<times> 'v) list \<Rightarrow> bool" where
  "is_dict al = distinct (map fst al)"

text \<open>What the loop of \<^verbatim>\<open>from_config\<close> is meant to leave in place of a value.\<close>

fun as_input_spec :: "('d \<Rightarrow> input_spec) \<Rightarrow> 'd spec_value \<Rightarrow> 'd spec_value" where
  "as_input_spec deserialize (Spec s) = Spec s"
| "as_input_spec deserialize (SpecDict d) = Spec (deserialize d)"

text \<open>
  The object \<^verbatim>\<open>__init__\<close> leaves behind when it runs to its end with the placeholders
  \<open>inputs\<close>, the head feature map \<open>h\<close> and the states \<open>sts'\<close> returned by the backbone.
\<close>

definition constructed ::
  "'r classifier_head \<Rightarrow> backbone \<Rightarrow> int \<Rightarrow> 'd specs \<Rightarrow> real \<Rightarrow> string \<Rightarrow> 'r option \<Rightarrow>
   'r option \<Rightarrow> bool \<Rightarrow> (string \<times> string) list \<Rightarrow> (string \<times> tensor) list \<Rightarrow> tensor \<Rightarrow>
   (string \<times> tensor) list \<Rightarrow> ('r, 'd) MovinetClassifier" where
  "constructed H b n specs dr ki kr br os kw inputs h sts' =
     \<lparr>self_num_classes = n,
      self_input_specs = specs,
      self_dropout_rate = dr,
      self_kernel_initializer = ki,
      self_kernel_regularizer = kr,
      self_bias_regularizer = br,
      self_output_states = os,
      self_setattr_tracking = False,
      keras_inputs =
        (if os then AList.update ''states'' (StateDict (state_inputs sts'))
                      (map (\<lambda>(name, t). (name, Placeholder t)) inputs)
         else map (\<lambda>(name, t). (name, Placeholder t)) inputs),
      keras_outputs =
        (let x = H \<lparr>h_head_filters = bb_head_filters b, h_num_classes = n, h_dropout_rate = dr,
                    h_kernel_initializer = ki, h_kernel_regularizer = kr,
                    h_conv_type = bb_conv_type b\<rparr> h
         in if os then WithStates x sts' else Single x),
      keras_kwargs = kw,
      self_backbone = b\<rparr>"

text \<open>
  A backbone and a saved-spec reader to run the definitions on: the backbone returns a
  head feature map and one state whatever it is given.
\<close>

definition demo_backbone :: backbone where
  "demo_backbone =
     \<lparr>bb_head_filters = 2048, bb_conv_type = ''3d'',
      bb_call = (\<lambda>arg. ([(''head'', \<lparr>tshape = [None, Some 1, Some 1, Some 1, Some 480], tname = ''head''\<rparr>)],
                         [(''state_block0'', \<lparr>tshape = [None, Some 2, Some 4, Some 4, Some 8], tname = ''buffer''\<rparr>)]))\<rparr>"

definition demo_deserialize :: "shape \<Rightarrow> input_spec" where
  "demo_deserialize s = InputSpec s"

definition demo_config :: "(unit, shape) config" where
  "demo_config =
     \<lparr>cfg_backbone = demo_backbone, cfg_num_classes = 10,
      cfg_input_specs = Some [(''image'', SpecDict [None, Some 8, Some 172, Some 172, Some 3]),
                              (''states'', Spec (InputSpec [None, Some 4]))],
      cfg_dropout_rate = 0, cfg_kernel_initializer = ''HeNormal'',
      cfg_kernel_regularizer = None, cfg_bias_regularizer = None, cfg_output_states = False\<rparr>"

section \<open>Lemmas\<close>

lemma make_inputs_keys: "make_inputs specs = Inr inputs \<Longrightarrow> map fst inputs = map fst specs"
  by (induction specs arbitrary: inputs rule: make_inputs.induct) (auto split: sum.splits)

lemma make_inputs_Inr_iff: "(\<exists>inputs. make_inputs specs = Inr inputs) \<longleftrightarrow> spec_mapping specs"
  unfolding spec_mapping_def
  by (induction specs rule: make_inputs.induct) (auto split: sum.splits)

lemma make_inputs_Inl: "make_inputs specs = Inl e \<Longrightarrow> e = AttributeError ''shape''"
  by (induction specs rule: make_inputs.induct) (auto split: sum.splits)

lemma make_inputs_lookup:
  "make_inputs specs = Inr inputs \<Longrightarrow> map_of inputs k = Some t \<Longrightarrow>
   \<exists>s. map_of specs k = Some (Spec s) \<and> t = keras_Input (drop 1 (shape s)) (''states/'' @ k)"
  by (induction specs arbitrary: inputs rule: make_inputs.induct)
     (auto split: sum.splits if_splits)

lemma update_as_map:
  "distinct (map fst al) \<Longrightarrow> map_of al k = Some v0 \<Longrightarrow>
   AList.update k v al = map (\<lambda>(n, w). (n, if n = k then v else w)) al"
proof (induction al)
  case Nil
  then show ?case by simp
next
  case (Cons p al)
  obtain n w where p: "p = (n, w)" by (cases p)
  show ?case
  proof (cases "n = k")
    case True
    with Cons.prems p have "k \<notin> fst ` set al" by auto
    then have "map (\<lambda>(n, w). (n, if n = k then v else w)) al = al"
      by (induction al) auto
    with True p show ?thesis by simp
  next
    case False
    with Cons p show ?thesis by simp
  qed
qed

text \<open>On a mapping of spec objects the loop of \<^verbatim>\<open>from_config\<close> changes nothing.\<close>

lemma deserialize_specs_unchanged:
  "spec_mapping specs \<Longrightarrow> set names \<subseteq> fst ` set specs \<Longrightarrow>
   deserialize_specs deserialize names specs = (specs, None)"
proof (induction names)
  case Nil
  then show ?case by simp
next
  case (Cons name names)
  from Cons.prems(2) obtain v where "map_of specs name = Some v"
    by (cases "map_of specs name") (auto simp: map_of_eq_None_iff)
  moreover from this have "(name, v) \<in> set specs" by (rule map_of_SomeD)
  with Cons.prems(1) have "is_spec v" by (auto simp: spec_mapping_def list_all_iff)
  ultimately show ?case using Cons by (cases v) auto
qed

text \<open>
  On a dictionary the loop ends without an exception and has replaced the value of every
  name it visited.
\<close>

lemma deserialize_specs_map:
  "distinct (map fst specs) \<Longrightarrow> set names \<subseteq> fst ` set specs \<Longrightarrow>
   deserialize_specs deserialize names specs =
     (map (\<lambda>(n, v). (n, if n \<in> set names then as_input_spec deserialize v else v)) specs, None)"
proof (induction names arbitrary: specs)
  case Nil
  then show ?case by (simp add: case_prod_unfold)
next
  case (Cons name names)
  from Cons.prems(2) obtain v where v: "map_of specs name = Some v"
    by (cases "map_of specs name") (auto simp: map_of_eq_None_iff)
  have uniq: "w = v" if "(name, w) \<in> set specs" for w
    using that Cons.prems(1) v by simp
  show ?case
  proof (cases v)
    case (Spec s)
    have "deserialize_specs deserialize (name # names) specs = deserialize_specs deserialize names specs"
      using v Spec by simp
    also have "\<dots> = (map (\<lambda>(n, v). (n, if n \<in> set names then as_input_spec deserialize v else v)) specs, None)"
      using Cons by simp
    also have "map (\<lambda>(n, v). (n, if n \<in> set names then as_input_spec deserialize v else v)) specs
        = map (\<lambda>(n, v). (n, if n \<in> set (name # names) then as_input_spec deserialize v else v)) specs"
      using Spec by (intro map_cong) (auto dest!: uniq)
    finally show ?thesis .
  next
    case (SpecDict d)
    let ?specs' = "AList.update name (Spec (deserialize d)) specs"
    have upd: "?specs' = map (\<lambda>(n, w). (n, if n = name then Spec (deserialize d) else w)) specs"
      using Cons.prems(1) v by (rule update_as_map)
    have d': "distinct (map fst ?specs')"
      using Cons.prems(1) by (rule distinct_update)
    have k': "set names \<subseteq> fst ` set ?specs'"
      using Cons.prems(2) by (auto simp: dom_update)
    have "deserialize_specs deserialize (name # names) specs = deserialize_specs deserialize names ?specs'"
      using v SpecDict by simp
    also have "\<dots> = (map (\<lambda>(n, v). (n, if n \<in> set names then as_input_spec deserialize v else v)) ?specs', None)"
      using Cons.IH [OF d' k'] .
    also have "map (\<lambda>(n, v). (n, if n \<in> set names then as_input_spec deserialize v else v)) ?specs'
        = map (\<lambda>(n, v). (n, if n \<in> set (name # names) then as_input_spec deserialize v else v)) specs"
      unfolding upd map_map using SpecDict by (intro map_cong) (auto dest!: uniq)
    finally show ?thesis .
  qed
qed

lemma deserialize_specs_all:
  assumes "is_dict specs"
  shows "deserialize_specs deserialize (map fst specs) specs =
           (map (\<lambda>(n, v). (n, as_input_spec deserialize v)) specs, None)"
proof -
  have "deserialize_specs deserialize (map fst specs) specs =
          (map (\<lambda>(n, v). (n, if n \<in> set (map fst specs) then as_input_spec deserialize v else v)) specs, None)"
    using assms by (intro deserialize_specs_map) (auto simp: is_dict_def)
  also have "map (\<lambda>(n, v). (n, if n \<in> set (map fst specs) then as_input_spec deserialize v else v)) specs
      = map (\<lambda>(n, v). (n, as_input_spec deserialize v)) specs"
    by (intro map_cong) force+
  finally show ?thesis .
qed

text \<open>The two ways out of the constructor that build an object.\<close>

lemma init_success:
  assumes "make_inputs (effective_input_specs specs) = Inr inputs"
    and "map_of inputs ''image'' = Some img"
    and "bb_call b \<lparr>image = img, states = get_states inputs\<rparr> = (endpoints, sts')"
    and "map_of endpoints ''head'' = Some h"
  shows "MovinetClassifier_init H b n specs dr ki kr br os kw =
           \<lparr>backbone_calls = [\<lparr>image = img, states = get_states inputs\<rparr>],
            result = Inr (constructed H b n (effective_input_specs specs) dr ki kr br os kw inputs h sts')\<rparr>"
  using assms by (simp add: MovinetClassifier_init_def constructed_def Let_def)

lemma init_InrE:
  assumes "result (MovinetClassifier_init H b n specs dr ki kr br os kw) = Inr m"
  obtains inputs img endpoints sts' h where
    "make_inputs (effective_input_specs specs) = Inr inputs"
    "map_of inputs ''image'' = Some img"
    "bb_call b \<lparr>image = img, states = get_states inputs\<rparr> = (endpoints, sts')"
    "map_of endpoints ''head'' = Some h"
    "backbone_calls (MovinetClassifier_init H b n specs dr ki kr br os kw) =
       [\<lparr>image = img, states = get_states inputs\<rparr>]"
    "m = constructed H b n (effective_input_specs specs) dr ki kr br os kw inputs h sts'"
proof -
  from assms obtain inputs img endpoints sts' h where
    f: "make_inputs (effective_input_specs specs) = Inr inputs"
      "map_of inputs ''image'' = Some img"
      "bb_call b \<lparr>image = img, states = get_states inputs\<rparr> = (endpoints, sts')"
      "map_of endpoints ''head'' = Some h"
    by (auto simp: MovinetClassifier_init_def Let_def split: sum.splits option.splits prod.splits)
  have "MovinetClassifier_init H b n specs dr ki kr br os kw =
          \<lparr>backbone_calls = [\<lparr>image = img, states = get_states inputs\<rparr>],
           result = Inr (constructed H b n (effective_input_specs specs) dr ki kr br os kw inputs h sts')\<rparr>"
    using f by (rule init_success)
  with assms f that show thesis by simp
qed

lemma effective_input_specs_nonempty: "effective_input_specs specs \<noteq> []"
  by (cases specs rule: effective_input_specs.cases) (simp_all add: default_input_specs_def)

lemma effective_input_specs_idem:
  "effective_input_specs (Some (effective_input_specs specs)) = effective_input_specs specs"
  by (cases "effective_input_specs specs") (simp_all add: effective_input_specs_nonempty)

lemma init_calls_backbone:
  assumes "make_inputs (effective_input_specs specs) = Inr inputs"
    and "map_of inputs ''image'' = Some img"
  shows "backbone_calls (MovinetClassifier_init H b n specs dr ki kr br os kw) =
           [\<lparr>image = img, states = get_states inputs\<rparr>]"
  using assms
  by (simp add: MovinetClassifier_init_def Let_def split: prod.splits option.splits)

lemma init_no_image:
  assumes "make_inputs (effective_input_specs specs) = Inr inputs"
    and "map_of inputs ''image'' = None"
  shows "MovinetClassifier_init H b n specs dr ki kr br os kw =
           \<lparr>backbone_calls = [], result = Inl (KeyError ''image'')\<rparr>"
  using assms by (simp add: MovinetClassifier_init_def Let_def)

lemma make_inputs_has_key:
  assumes "make_inputs specs = Inr inputs"
  shows "map_of inputs k = None \<longleftrightarrow> k \<notin> fst ` set specs"
proof -
  have "fst ` set inputs = fst ` set specs"
    using make_inputs_keys [OF assms] by (metis list.set_map)
  then show ?thesis by (simp add: map_of_eq_None_iff)
qed

lemma from_config_spec_mapping:
  assumes "cfg_input_specs config = Some specs" and "spec_mapping specs"
  shows "from_config H deserialize config =
           (config,
            MovinetClassifier_init H (cfg_backbone config) (cfg_num_classes config)
              (cfg_input_specs config) (cfg_dropout_rate config) (cfg_kernel_initializer config)
              (cfg_kernel_regularizer config) (cfg_bias_regularizer config) (cfg_output_states config) [])"
proof (cases specs)
  case Nil
  with assms show ?thesis by (simp add: from_config_def)
next
  case (Cons p ps)
  have "deserialize_specs deserialize (map fst specs) specs = (specs, None)"
    using assms(2) by (rule deserialize_specs_unchanged) simp
  moreover have "config\<lparr>cfg_input_specs := Some specs\<rparr> = config"
    using assms(1) by simp
  ultimately show ?thesis
    using assms(1) Cons by (simp add: from_config_def)
qed

lemma from_config_dict:
  assumes "cfg_input_specs config = Some specs" and "is_dict specs"
  shows "from_config H deserialize config =
           (config\<lparr>cfg_input_specs := Some (map (\<lambda>(name, v). (name, as_input_spec deserialize v)) specs)\<rparr>,
            MovinetClassifier_init H (cfg_backbone config) (cfg_num_classes config)
              (Some (map (\<lambda>(name, v). (name, as_input_spec deserialize v)) specs))
              (cfg_dropout_rate config) (cfg_kernel_initializer config)
              (cfg_kernel_regularizer config) (cfg_bias_regularizer config) (cfg_output_states config) [])"
proof (cases specs)
  case Nil
  with assms show ?thesis by (simp add: from_config_def)
next
  case (Cons p ps)
  have "deserialize_specs deserialize (map fst specs) specs =
          (map (\<lambda>(name, v). (name, as_input_spec deserialize v)) specs, None)"
    using assms(2) by (rule deserialize_specs_all)
  then show ?thesis
    using assms(1) Cons by (simp add: from_config_def)
qed

text \<open>A run of the constructor on the default input specs.\<close>

lemma demo_run:
  "MovinetClassifier_init ClassifierHead_spec demo_backbone 10 None 0 ''HeNormal'' None None os [] =
     \<lparr>backbone_calls = [\<lparr>image = keras_Input [None, None, None, Some 3] ''states/image'', states = StateDict []\<rparr>],
      result = Inr (constructed ClassifierHead_spec demo_backbone 10 default_input_specs 0 ''HeNormal'' None None os []
                   [(''image'', keras_Input [None, None, None, Some 3] ''states/image'')]
                   \<lparr>tshape = [None, Some 1, Some 1, Some 1, Some 480], tname = ''head''\<rparr>
                   [(''state_block0'', \<lparr>tshape = [None, Some 2, Some 4, Some 4, Some 8], tname = ''buffer''\<rparr>)])\<rparr>"
  by (simp add: MovinetClassifier_init_def constructed_def Let_def default_input_specs_def
        get_states_def demo_backbone_def)

section \<open>The claims\<close>

text \<open>
  Claim C1. For every \<^verbatim>\<open>MovinetClassifier\<close> \<open>x\<close> (an object the constructor returned),
  \<^verbatim>\<open>from_config(get_config(x))\<close> reconstructs an equivalent model: the call leaves the
  config as it was, calls the backbone as the construction of \<open>x\<close> did and returns an
  object \<open>y\<close> whose \<^verbatim>\<open>get_config()\<close> has the same value as that of \<open>x\<close> under each of
  the eight keys; these are the values \<open>x\<close> was constructed with, the input specs
  being the default ones when none were given. (The remaining keyword arguments of
  \<open>x\<close> are not part of the config, and \<open>y\<close> is built without them.)
\<close>

theorem config_round_trip:
  assumes "result (MovinetClassifier_init H b n specs dr ki kr br os kw) = Inr x"
  shows "\<exists>y. from_config H deserialize (get_config x) =
               (get_config x,
                \<lparr>backbone_calls = backbone_calls (MovinetClassifier_init H b n specs dr ki kr br os kw),
                 result = Inr y\<rparr>) \<and>
             get_config y = get_config x \<and>
             cfg_backbone (get_config y) = b \<and>
             cfg_num_classes (get_config y) = n \<and>
             cfg_input_specs (get_config y) = Some (effective_input_specs specs) \<and>
             cfg_dropout_rate (get_config y) = dr \<and>
             cfg_kernel_initializer (get_config y) = ki \<and>
             cfg_kernel_regularizer (get_config y) = kr \<and>
             cfg_bias_regularizer (get_config y) = br \<and>
             cfg_output_states (get_config y) = os"
proof -
  let ?es = "effective_input_specs specs"
  from assms obtain inputs img endpoints sts' h where
    mk: "make_inputs ?es = Inr inputs"
    and img: "map_of inputs ''image'' = Some img"
    and call: "bb_call b \<lparr>image = img, states = get_states inputs\<rparr> = (endpoints, sts')"
    and hd: "map_of endpoints ''head'' = Some h"
    and calls: "backbone_calls (MovinetClassifier_init H b n specs dr ki kr br os kw) =
       [\<lparr>image = img, states = get_states inputs\<rparr>]"
    and x: "x = constructed H b n ?es dr ki kr br os kw inputs h sts'"
    by (rule init_InrE)
  let ?y = "constructed H b n ?es dr ki kr br os [] inputs h sts'"
  have cfg: "get_config x = \<lparr>cfg_backbone = b, cfg_num_classes = n, cfg_input_specs = Some ?es,
      cfg_dropout_rate = dr, cfg_kernel_initializer = ki, cfg_kernel_regularizer = kr,
      cfg_bias_regularizer = br, cfg_output_states = os\<rparr>"
    by (simp add: x get_config_def constructed_def)
  have sm: "spec_mapping ?es"
    using mk make_inputs_Inr_iff by blast
  have mk': "make_inputs (effective_input_specs (Some ?es)) = Inr inputs"
    using mk by (simp add: effective_input_specs_idem)
  have "from_config H deserialize (get_config x) =
          (get_config x, MovinetClassifier_init H b n (Some ?es) dr ki kr br os [])"
    using from_config_spec_mapping [of "get_config x" ?es H deserialize] sm by (simp add: cfg)
  also have "MovinetClassifier_init H b n (Some ?es) dr ki kr br os [] =
      \<lparr>backbone_calls = [\<lparr>image = img, states = get_states inputs\<rparr>],
       result = Inr (constructed H b n (effective_input_specs (Some ?es)) dr ki kr br os [] inputs h sts')\<rparr>"
    using mk' img call hd by (rule init_success)
  finally have "from_config H deserialize (get_config x) =
      (get_config x,
       \<lparr>backbone_calls = backbone_calls (MovinetClassifier_init H b n specs dr ki kr br os kw),
        result = Inr ?y\<rparr>)"
    by (simp add: calls effective_input_specs_idem)
  moreover have "get_config ?y = get_config x"
    by (simp add: x get_config_def constructed_def)
  ultimately show ?thesis
    unfolding cfg by (intro exI [of _ ?y]) simp
qed

theorem config_round_trip_witness:
  "\<exists>x y. result (MovinetClassifier_init ClassifierHead_spec demo_backbone 10 (None :: shape specs option) 0
                  ''HeNormal'' (None :: unit option) None False [(''name'', ''movinet_a0'')]) = Inr x \<and>
         from_config ClassifierHead_spec demo_deserialize (get_config x) =
           (get_config x,
            \<lparr>backbone_calls = [\<lparr>image = keras_Input [None, None, None, Some 3] ''states/image'',
                                 states = StateDict []\<rparr>],
             result = Inr y\<rparr>) \<and>
         get_config y = get_config x \<and> cfg_num_classes (get_config y) = 10"
proof -
  obtain x where x: "result (MovinetClassifier_init ClassifierHead_spec demo_backbone 10 (None :: shape specs option) 0
                  ''HeNormal'' (None :: unit option) None False [(''name'', ''movinet_a0'')]) = Inr x"
    by (simp add: MovinetClassifier_init_def Let_def default_input_specs_def get_states_def demo_backbone_def)
  have calls: "backbone_calls (MovinetClassifier_init ClassifierHead_spec demo_backbone 10 (None :: shape specs option) 0
                  ''HeNormal'' (None :: unit option) None False [(''name'', ''movinet_a0'')]) =
      [\<lparr>image = keras_Input [None, None, None, Some 3] ''states/image'', states = StateDict []\<rparr>]"
    by (simp add: MovinetClassifier_init_def Let_def default_input_specs_def get_states_def demo_backbone_def)
  from config_round_trip [OF x, of demo_deserialize] x show ?thesis
    unfolding calls by blast
qed

text \<open>
  Claim C2. The output contract of a constructed model depends on the \<^verbatim>\<open>output_states\<close>
  flag. The classification tensor is the head, built from the backbone's attributes and
  the constructor's arguments, applied to the \<^verbatim>\<open>'head'\<close> endpoint of the one backbone
  call. When the flag is true the outputs are the pair of this tensor and the states
  mapping returned by that call; when it is false the output is this single tensor and
  no states mapping is present.
\<close>

theorem output_states_contract:
  assumes "result (MovinetClassifier_init H b n specs dr ki kr br os kw) = Inr m"
  shows "\<exists>arg h.
           backbone_calls (MovinetClassifier_init H b n specs dr ki kr br os kw) = [arg] \<and>
           map_of (fst (bb_call b arg)) ''head'' = Some h \<and>
           (os \<longrightarrow>
              keras_outputs m =
                WithStates
                  (H \<lparr>h_head_filters = bb_head_filters b, h_num_classes = n, h_dropout_rate = dr,
                      h_kernel_initializer = ki, h_kernel_regularizer = kr,
                      h_conv_type = bb_conv_type b\<rparr> h)
                  (snd (bb_call b arg)) \<and>
              state_outputs (keras_outputs m) = Some (snd (bb_call b arg))) \<and>
           (\<not> os \<longrightarrow>
              keras_outputs m =
                Single
                  (H \<lparr>h_head_filters = bb_head_filters b, h_num_classes = n, h_dropout_rate = dr,
                      h_kernel_initializer = ki, h_kernel_regularizer = kr,
                      h_conv_type = bb_conv_type b\<rparr> h) \<and>
              state_outputs (keras_outputs m) = None)"
proof -
  from assms obtain inputs img endpoints sts' h where
    call: "bb_call b \<lparr>image = img, states = get_states inputs\<rparr> = (endpoints, sts')"
    and hd: "map_of endpoints ''head'' = Some h"
    and calls: "backbone_calls (MovinetClassifier_init H b n specs dr ki kr br os kw) =
       [\<lparr>image = img, states = get_states inputs\<rparr>]"
    and m: "m = constructed H b n (effective_input_specs specs) dr ki kr br os kw inputs h sts'"
    by (rule init_InrE)
  let ?arg = "\<lparr>image = img, states = get_states inputs\<rparr>"
  let ?x = "H \<lparr>h_head_filters = bb_head_filters b, h_num_classes = n, h_dropout_rate = dr,
               h_kernel_initializer = ki, h_kernel_regularizer = kr,
               h_conv_type = bb_conv_type b\<rparr> h"
  have hd': "map_of (fst (bb_call b ?arg)) ''head'' = Some h"
    using call hd by simp
  have on: "os \<longrightarrow> keras_outputs m = WithStates ?x (snd (bb_call b ?arg)) \<and>
              state_outputs (keras_outputs m) = Some (snd (bb_call b ?arg))"
    using call by (simp add: m constructed_def Let_def)
  have off: "\<not> os \<longrightarrow> keras_outputs m = Single ?x \<and> state_outputs (keras_outputs m) = None"
    by (simp add: m constructed_def Let_def)
  from calls hd' on off show ?thesis by blast
qed

theorem output_states_contract_witness:
  "(\<exists>m. result (MovinetClassifier_init ClassifierHead_spec demo_backbone 10 (None :: unit specs option) 0
                 ''HeNormal'' (None :: unit option) None True []) = Inr m \<and>
        keras_outputs m =
          WithStates \<lparr>tshape = [None, Some 10], tname = ''classifier_head''\<rparr>
            [(''state_block0'', \<lparr>tshape = [None, Some 2, Some 4, Some 4, Some 8], tname = ''buffer''\<rparr>)] \<and>
        state_outputs (keras_outputs m) =
          Some [(''state_block0'', \<lparr>tshape = [None, Some 2, Some 4, Some 4, Some 8], tname = ''buffer''\<rparr>)]) \<and>
   (\<exists>m. result (MovinetClassifier_init ClassifierHead_spec demo_backbone 10 (None :: unit specs option) 0
                 ''HeNormal'' (None :: unit option) None False []) = Inr m \<and>
        keras_outputs m = Single \<lparr>tshape = [None, Some 10], tname = ''classifier_head''\<rparr> \<and>
        state_outputs (keras_outputs m) = None)"
proof -
  obtain m1 where m1: "result (MovinetClassifier_init ClassifierHead_spec demo_backbone 10 (None :: unit specs option) 0
                 ''HeNormal'' (None :: unit option) None True []) = Inr m1"
    by (simp add: demo_run)
  obtain m2 where m2: "result (MovinetClassifier_init ClassifierHead_spec demo_backbone 10 (None :: unit specs option) 0
                 ''HeNormal'' (None :: unit option) None False []) = Inr m2"
    by (simp add: demo_run)
  have "keras_outputs m1 =
          WithStates \<lparr>tshape = [None, Some 10], tname = ''classifier_head''\<rparr>
            [(''state_block0'', \<lparr>tshape = [None, Some 2, Some 4, Some 4, Some 8], tname = ''buffer''\<rparr>)] \<and>
        state_outputs (keras_outputs m1) =
          Some [(''state_block0'', \<lparr>tshape = [None, Some 2, Some 4, Some 4, Some 8], tname = ''buffer''\<rparr>)]"
    using output_states_contract [OF m1]
    by (auto simp: demo_backbone_def ClassifierHead_spec_def)
  moreover have "keras_outputs m2 = Single \<lparr>tshape = [None, Some 10], tname = ''classifier_head''\<rparr> \<and>
        state_outputs (keras_outputs m2) = None"
    using output_states_contract [OF m2]
    by (auto simp: demo_backbone_def ClassifierHead_spec_def)
  ultimately show ?thesis using m1 m2 by blast
qed

text \<open>
  Claim C3. A construction that returns an object has invoked the backbone exactly once,
  with the mapping of \<^verbatim>\<open>image\<close>, the placeholder made for the \<^verbatim>\<open>'image'\<close> input
  spec, and \<^verbatim>\<open>states\<close>, which is the \<^verbatim>\<open>'states'\<close> entry of the constructed inputs
  when the input specs have a key \<^verbatim>\<open>'states'\<close> and the empty mapping otherwise. The
  call returned \<open>(endpoints, sts')\<close>, and the classification output is the head, built
  from the backbone's attributes and the constructor's arguments, applied to
  \<^verbatim>\<open>endpoints['head']\<close>.
\<close>

theorem backbone_invoked_once:
  assumes "result (MovinetClassifier_init H b n specs dr ki kr br os kw) = Inr m"
  shows "\<exists>inputs s img endpoints sts' h.
           make_inputs (effective_input_specs specs) = Inr inputs \<and>
           map_of (effective_input_specs specs) ''image'' = Some (Spec s) \<and>
           img = keras_Input (drop 1 (shape s)) ''states/image'' \<and>
           map_of inputs ''image'' = Some img \<and>
           backbone_calls (MovinetClassifier_init H b n specs dr ki kr br os kw) =
             [\<lparr>image = img, states = get_states inputs\<rparr>] \<and>
           (''states'' \<in> fst ` set (effective_input_specs specs) \<longrightarrow>
              (\<exists>t. map_of inputs ''states'' = Some t \<and> get_states inputs = Placeholder t)) \<and>
           (''states'' \<notin> fst ` set (effective_input_specs specs) \<longrightarrow>
              get_states inputs = StateDict []) \<and>
           bb_call b \<lparr>image = img, states = get_states inputs\<rparr> = (endpoints, sts') \<and>
           map_of endpoints ''head'' = Some h \<and>
           classification (keras_outputs m) =
             H \<lparr>h_head_filters = bb_head_filters b, h_num_classes = n, h_dropout_rate = dr,
                h_kernel_initializer = ki, h_kernel_regularizer = kr,
                h_conv_type = bb_conv_type b\<rparr> h"
proof -
  let ?es = "effective_input_specs specs"
  from assms obtain inputs img endpoints sts' h where
    mk: "make_inputs ?es = Inr inputs"
    and img: "map_of inputs ''image'' = Some img"
    and call: "bb_call b \<lparr>image = img, states = get_states inputs\<rparr> = (endpoints, sts')"
    and hd: "map_of endpoints ''head'' = Some h"
    and calls: "backbone_calls (MovinetClassifier_init H b n specs dr ki kr br os kw) =
       [\<lparr>image = img, states = get_states inputs\<rparr>]"
    and m: "m = constructed H b n ?es dr ki kr br os kw inputs h sts'"
    by (rule init_InrE)
  from make_inputs_lookup [OF mk img] obtain s where
    s: "map_of ?es ''image'' = Some (Spec s)" "img = keras_Input (drop 1 (shape s)) ''states/image''"
    by auto
  have st1: "''states'' \<in> fst ` set ?es \<longrightarrow>
              (\<exists>t. map_of inputs ''states'' = Some t \<and> get_states inputs = Placeholder t)"
    using make_inputs_has_key [OF mk, of "''states''"] by (auto simp: get_states_def)
  have st2: "''states'' \<notin> fst ` set ?es \<longrightarrow> get_states inputs = StateDict []"
    using make_inputs_has_key [OF mk, of "''states''"] by (auto simp: get_states_def)
  have out: "classification (keras_outputs m) =
             H \<lparr>h_head_filters = bb_head_filters b, h_num_classes = n, h_dropout_rate = dr,
                h_kernel_initializer = ki, h_kernel_regularizer = kr,
                h_conv_type = bb_conv_type b\<rparr> h"
    by (simp add: m constructed_def Let_def)
  from mk s img calls st1 st2 call hd out show ?thesis by blast
qed

theorem backbone_invoked_once_witness:
  "\<exists>m. result (MovinetClassifier_init ClassifierHead_spec demo_backbone 10
                 (Some [(''image'', Spec (InputSpec [None, Some 8, Some 172, Some 172, Some 3])),
                        (''states'', Spec (InputSpec [None, Some 4]) :: unit spec_value)])
                 0 ''HeNormal'' (None :: unit option) None False []) = Inr m \<and>
       backbone_calls (MovinetClassifier_init ClassifierHead_spec demo_backbone 10
                 (Some [(''image'', Spec (InputSpec [None, Some 8, Some 172, Some 172, Some 3])),
                        (''states'', Spec (InputSpec [None, Some 4]) :: unit spec_value)])
                 0 ''HeNormal'' (None :: unit option) None False []) =
         [\<lparr>image = keras_Input [Some 8, Some 172, Some 172, Some 3] ''states/image'',
           states = Placeholder (keras_Input [Some 4] ''states/states'')\<rparr>] \<and>
       classification (keras_outputs m) =
         ClassifierHead_spec
           \<lparr>h_head_filters = 2048, h_num_classes = 10, h_dropout_rate = 0,
            h_kernel_initializer = ''HeNormal'', h_kernel_regularizer = (None :: unit option),
            h_conv_type = ''3d''\<rparr>
           \<lparr>tshape = [None, Some 1, Some 1, Some 1, Some 480], tname = ''head''\<rparr>"
proof -
  obtain m where m: "result (MovinetClassifier_init ClassifierHead_spec demo_backbone 10
                 (Some [(''image'', Spec (InputSpec [None, Some 8, Some 172, Some 172, Some 3])),
                        (''states'', Spec (InputSpec [None, Some 4]) :: unit spec_value)])
                 0 ''HeNormal'' (None :: unit option) None False []) = Inr m"
    by (simp add: MovinetClassifier_init_def Let_def get_states_def demo_backbone_def)
  from backbone_invoked_once [OF m] obtain inputs s img endpoints sts' h where
    f: "make_inputs (effective_input_specs
          (Some [(''image'', Spec (InputSpec [None, Some 8, Some 172, Some 172, Some 3])),
                 (''states'', Spec (InputSpec [None, Some 4]) :: unit spec_value)])) = Inr inputs"
      "map_of inputs ''image'' = Some img"
      "backbone_calls (MovinetClassifier_init ClassifierHead_spec demo_backbone 10
                 (Some [(''image'', Spec (InputSpec [None, Some 8, Some 172, Some 172, Some 3])),
                        (''states'', Spec (InputSpec [None, Some 4]) :: unit spec_value)])
                 0 ''HeNormal'' (None :: unit option) None False []) =
         [\<lparr>image = img, states = get_states inputs\<rparr>]"
      "bb_call demo_backbone \<lparr>image = img, states = get_states inputs\<rparr> = (endpoints, sts')"
      "map_of endpoints ''head'' = Some h"
      "classification (keras_outputs m) =
         ClassifierHead_spec
           \<lparr>h_head_filters = bb_head_filters demo_backbone, h_num_classes = 10, h_dropout_rate = 0,
            h_kernel_initializer = ''HeNormal'', h_kernel_regularizer = (None :: unit option),
            h_conv_type = bb_conv_type demo_backbone\<rparr> h"
    by blast
  from f(1) have inputs: "inputs = [(''image'', keras_Input [Some 8, Some 172, Some 172, Some 3] ''states/image''),
      (''states'', keras_Input [Some 4] ''states/states'')]"
    by auto
  from f(2) inputs have img: "img = keras_Input [Some 8, Some 172, Some 172, Some 3] ''states/image''"
    by simp
  from f(4,5) have h: "h = \<lparr>tshape = [None, Some 1, Some 1, Some 1, Some 480], tname = ''head''\<rparr>"
    by (auto simp: demo_backbone_def)
  have "bb_head_filters demo_backbone = 2048" "bb_conv_type demo_backbone = ''3d''"
    by (simp_all add: demo_backbone_def)
  with f(3,6) m show ?thesis
    unfolding inputs img h by (simp add: get_states_def)
qed

text \<open>
  Claim C4. \<^verbatim>\<open>build_movinet_model(input_specs, model_config, num_classes, l2_regularizer)\<close>
  runs the constructor on the backbone that the backbone factory makes from
  \<^verbatim>\<open>input_specs\<close>, \<^verbatim>\<open>model_config.backbone\<close>, \<^verbatim>\<open>model_config.norm_activation\<close> and
  \<^verbatim>\<open>l2_regularizer\<close>, with the given \<^verbatim>\<open>num_classes\<close>, \<^verbatim>\<open>l2_regularizer\<close> as kernel
  regularizer, the mapping \<^verbatim>\<open>{'image': input_specs}\<close> as input specs and
  \<^verbatim>\<open>model_config.dropout_rate\<close> as dropout rate (the other parameters keep their
  defaults). The object it returns holds these values; the only exception this run of
  the constructor can end with is the missing \<^verbatim>\<open>'head'\<close> endpoint.
\<close>

theorem build_movinet_model_construction:
  "built (build_movinet_model H build_backbone input_specs model_config num_classes l2_regularizer) =
     MovinetClassifier_init H
       (build_backbone \<lparr>bb_input_specs = input_specs,
                        bb_backbone_config = mc_backbone model_config,
                        bb_norm_activation_config = mc_norm_activation model_config,
                        bb_l2_regularizer = l2_regularizer\<rparr>)
       num_classes (Some [(''image'', Spec input_specs)]) (mc_dropout_rate model_config)
       ''HeNormal'' l2_regularizer None False [] \<and>
   (case result (built (build_movinet_model H build_backbone input_specs model_config num_classes l2_regularizer)) of
      Inl e \<Rightarrow> e = KeyError ''head''
    | Inr m \<Rightarrow>
        self_backbone m = build_backbone \<lparr>bb_input_specs = input_specs,
                        bb_backbone_config = mc_backbone model_config,
                        bb_norm_activation_config = mc_norm_activation model_config,
                        bb_l2_regularizer = l2_regularizer\<rparr> \<and>
        self_num_classes m = num_classes \<and>
        self_kernel_regularizer m = l2_regularizer \<and>
        self_input_specs m = [(''image'', Spec input_specs)] \<and>
        self_dropout_rate m = mc_dropout_rate model_config)"
  by (simp add: build_movinet_model_def Let_def MovinetClassifier_init_def
        split: prod.splits option.splits)

theorem build_movinet_model_construction_witness:
  "result (built (build_movinet_model ClassifierHead_spec (\<lambda>args. demo_backbone)
       (InputSpec [None, Some 8, Some 172, Some 172, Some 3])
       \<lparr>mc_backbone = ''a0'', mc_norm_activation = ''swish'', mc_dropout_rate = 1 / 5\<rparr> 600 (None :: unit option)
       :: (unit, unit) build_result)) =
     Inr (constructed ClassifierHead_spec demo_backbone 600
            [(''image'', Spec (InputSpec [None, Some 8, Some 172, Some 172, Some 3]))] (1 / 5) ''HeNormal'' None None False []
            [(''image'', keras_Input [Some 8, Some 172, Some 172, Some 3] ''states/image'')]
            \<lparr>tshape = [None, Some 1, Some 1, Some 1, Some 480], tname = ''head''\<rparr>
            [(''state_block0'', \<lparr>tshape = [None, Some 2, Some 4, Some 4, Some 8], tname = ''buffer''\<rparr>)])"
proof -
  let ?r = "build_movinet_model ClassifierHead_spec (\<lambda>args. demo_backbone)
       (InputSpec [None, Some 8, Some 172, Some 172, Some 3])
       \<lparr>mc_backbone = ''a0'', mc_norm_activation = ''swish'', mc_dropout_rate = 1 / 5\<rparr> 600 (None :: unit option)
       :: (unit, unit) build_result"
  have "built ?r = MovinetClassifier_init ClassifierHead_spec demo_backbone 600
          (Some [(''image'', Spec (InputSpec [None, Some 8, Some 172, Some 172, Some 3]))]) (1 / 5)
          ''HeNormal'' None None False []"
    by (simp add: build_movinet_model_construction)
  then show ?thesis
    by (simp add: MovinetClassifier_init_def constructed_def Let_def get_states_def demo_backbone_def)
qed

text \<open>
  Claim C5. Loading the module registers \<^verbatim>\<open>build_movinet_model\<close> in the model factory
  under the key \<^verbatim>\<open>'movinet'\<close>: a lookup of \<^verbatim>\<open>'movinet'\<close> in the registry yields this
  builder, and \<^verbatim>\<open>'movinet'\<close> is the one key the registry gains.
\<close>

theorem movinet_registered:
  "lookup_model_builder (load_module H build_backbone registry) ''movinet'' =
     Some (build_movinet_model H build_backbone) \<and>
   dom (load_module H build_backbone registry) = insert ''movinet'' (dom registry)"
  by (simp add: lookup_model_builder_def load_module_def register_model_builder_def)

theorem movinet_registered_witness:
  "lookup_model_builder (load_module ClassifierHead_spec (\<lambda>args. demo_backbone) Map.empty) ''movinet'' =
     Some (build_movinet_model (ClassifierHead_spec :: unit classifier_head)
            (\<lambda>args :: (string, string, unit) build_backbone_args. demo_backbone)
           :: input_spec \<Rightarrow> (string, string) MovinetModel \<Rightarrow> int \<Rightarrow> unit option \<Rightarrow> (unit, unit) build_result) \<and>
   dom (load_module (ClassifierHead_spec :: unit classifier_head)
          (\<lambda>args :: (string, string, unit) build_backbone_args. demo_backbone)
          (Map.empty :: string \<rightharpoonup> (input_spec \<Rightarrow> (string, string) MovinetModel \<Rightarrow> int \<Rightarrow> unit option \<Rightarrow> (unit, unit) build_result))) =
     {''movinet''}"
  by (simp add: movinet_registered)

text \<open>
  Claim C6. The classification output of a constructed model has the shape
  \<^verbatim>\<open>(num_classes,)\<close> per input example: behind the batch dimension its one dimension, the
  last, is the \<^verbatim>\<open>num_classes\<close> given to the constructor, because the head is built with
  that \<^verbatim>\<open>num_classes\<close>.
\<close>

theorem output_shape_num_classes:
  assumes "result (MovinetClassifier_init ClassifierHead_spec b n specs dr ki kr br os kw) = Inr m"
  shows "drop 1 (tshape (classification (keras_outputs m))) = [Some n] \<and>
         last (tshape (classification (keras_outputs m))) = Some n"
proof -
  from assms obtain inputs h sts' where
    "m = constructed ClassifierHead_spec b n (effective_input_specs specs) dr ki kr br os kw inputs h sts'"
    by (rule init_InrE)
  then show ?thesis
    by (simp add: constructed_def ClassifierHead_spec_def Let_def)
qed

theorem output_shape_num_classes_witness:
  "\<exists>m. result (MovinetClassifier_init ClassifierHead_spec demo_backbone 10 (None :: unit specs option) 0
                 ''HeNormal'' (None :: unit option) None True []) = Inr m \<and>
       drop 1 (tshape (classification (keras_outputs m))) = [Some 10] \<and>
       last (tshape (classification (keras_outputs m))) = Some 10"
proof -
  obtain m where m: "result (MovinetClassifier_init ClassifierHead_spec demo_backbone 10 (None :: unit specs option) 0
                 ''HeNormal'' (None :: unit option) None True []) = Inr m"
    by (simp add: demo_run)
  from output_shape_num_classes [OF m] m show ?thesis by blast
qed

text \<open>
  Claim C7. When the \<^verbatim>\<open>'input_specs'\<close> entry of the config given to \<^verbatim>\<open>from_config\<close> is
  non-empty, the constructor is invoked on the input specs in which every value that
  was a plain dictionary has been replaced by the spec object the framework's
  deserializer makes of it, while the values that were spec objects are the ones they
  were.
\<close>

theorem from_config_deserializes:
  assumes "cfg_input_specs config = Some specs" and "specs \<noteq> []" and "is_dict specs"
  shows "snd (from_config H deserialize config) =
           MovinetClassifier_init H (cfg_backbone config) (cfg_num_classes config)
              (Some (map (\<lambda>(name, v). (name, as_input_spec deserialize v)) specs))
              (cfg_dropout_rate config) (cfg_kernel_initializer config)
              (cfg_kernel_regularizer config) (cfg_bias_regularizer config) (cfg_output_states config) [] \<and>
         (\<forall>name d. map_of specs name = Some (SpecDict d) \<longrightarrow>
            map_of (map (\<lambda>(name, v). (name, as_input_spec deserialize v)) specs) name = Some (Spec (deserialize d))) \<and>
         (\<forall>name s. map_of specs name = Some (Spec s) \<longrightarrow>
            map_of (map (\<lambda>(name, v). (name, as_input_spec deserialize v)) specs) name = Some (Spec s))"
  using from_config_dict [OF assms(1,3), of H deserialize] by (simp add: map_of_map)

theorem from_config_deserializes_witness:
  "cfg_input_specs demo_config =
     Some [(''image'', SpecDict [None, Some 8, Some 172, Some 172, Some 3]),
           (''states'', Spec (InputSpec [None, Some 4]))] \<and>
   is_dict [(''image'', SpecDict [None, Some 8, Some 172, Some 172, Some 3]),
            (''states'', Spec (InputSpec [None, Some 4]) :: shape spec_value)] \<and>
   snd (from_config ClassifierHead_spec demo_deserialize demo_config) =
     MovinetClassifier_init ClassifierHead_spec demo_backbone 10
       (Some [(''image'', Spec (InputSpec [None, Some 8, Some 172, Some 172, Some 3])),
              (''states'', Spec (InputSpec [None, Some 4]))])
       0 ''HeNormal'' None None False []"
proof -
  have h1: "cfg_input_specs demo_config =
     Some [(''image'', SpecDict [None, Some 8, Some 172, Some 172, Some 3]),
           (''states'', Spec (InputSpec [None, Some 4]))]"
    by (simp add: demo_config_def)
  have h2: "[(''image'', SpecDict [None, Some 8, Some 172, Some 172, Some 3]),
            (''states'', Spec (InputSpec [None, Some 4]) :: shape spec_value)] \<noteq> []"
    by simp
  have h3: "is_dict [(''image'', SpecDict [None, Some 8, Some 172, Some 172, Some 3]),
            (''states'', Spec (InputSpec [None, Some 4]) :: shape spec_value)]"
    by (simp add: is_dict_def)
  have "snd (from_config ClassifierHead_spec demo_deserialize demo_config) =
     MovinetClassifier_init ClassifierHead_spec demo_backbone 10
       (Some [(''image'', Spec (InputSpec [None, Some 8, Some 172, Some 172, Some 3])),
              (''states'', Spec (InputSpec [None, Some 4]))])
       0 ''HeNormal'' None None False []"
    using from_config_deserializes [OF h1 h2 h3, of ClassifierHead_spec demo_deserialize]
    by (simp add: demo_config_def demo_deserialize_def)
  with h1 h3 show ?thesis by blast
qed

text \<open>
  Claim C8. For a constructed model, \<^verbatim>\<open>checkpoint_items\<close> is the mapping with exactly
  one entry, the key \<^verbatim>\<open>'backbone'\<close> with the backbone the model was constructed with,
  which is also the value of the property \<^verbatim>\<open>backbone\<close>.
\<close>

theorem checkpoint_items_backbone:
  assumes "result (MovinetClassifier_init H b n specs dr ki kr br os kw) = Inr m"
  shows "checkpoint_items m = [(''backbone'', b)] \<and> backbone_property m = b"
proof -
  from assms obtain inputs h sts' where
    "m = constructed H b n (effective_input_specs specs) dr ki kr br os kw inputs h sts'"
    by (rule init_InrE)
  then show ?thesis
    by (simp add: checkpoint_items_def backbone_property_def constructed_def)
qed

theorem checkpoint_items_backbone_witness:
  "\<exists>m. result (MovinetClassifier_init ClassifierHead_spec demo_backbone 10 (None :: unit specs option) 0
                 ''HeNormal'' (None :: unit option) None False []) = Inr m \<and>
       checkpoint_items m = [(''backbone'', demo_backbone)] \<and> backbone_property m = demo_backbone"
proof -
  obtain m where m: "result (MovinetClassifier_init ClassifierHead_spec demo_backbone 10 (None :: unit specs option) 0
                 ''HeNormal'' (None :: unit option) None False []) = Inr m"
    by (simp add: demo_run)
  from checkpoint_items_backbone [OF m] m show ?thesis by blast
qed

text \<open>
  Claim C9. \<^verbatim>\<open>from_config\<close> updates its config argument in place: when the
  \<^verbatim>\<open>'input_specs'\<close> entry maps some name to a plain dictionary, the config the call
  leaves to its caller has under \<^verbatim>\<open>'input_specs'\<close> the mapping in which that name (as
  every name with a plain dictionary) holds the deserialized spec object; the other
  seven entries of the config are the ones they were.
\<close>

theorem from_config_updates_config_in_place:
  assumes "cfg_input_specs config = Some specs" and "is_dict specs"
    and "map_of specs name = Some (SpecDict d)"
  shows "\<exists>specs'. fst (from_config H deserialize config) = config\<lparr>cfg_input_specs := Some specs'\<rparr> \<and>
           specs' = map (\<lambda>(name, v). (name, as_input_spec deserialize v)) specs \<and>
           map_of specs' name = Some (Spec (deserialize d)) \<and>
           cfg_backbone (fst (from_config H deserialize config)) = cfg_backbone config \<and>
           cfg_num_classes (fst (from_config H deserialize config)) = cfg_num_classes config \<and>
           cfg_dropout_rate (fst (from_config H deserialize config)) = cfg_dropout_rate config \<and>
           cfg_kernel_initializer (fst (from_config H deserialize config)) = cfg_kernel_initializer config \<and>
           cfg_kernel_regularizer (fst (from_config H deserialize config)) = cfg_kernel_regularizer config \<and>
           cfg_bias_regularizer (fst (from_config H deserialize config)) = cfg_bias_regularizer config \<and>
           cfg_output_states (fst (from_config H deserialize config)) = cfg_output_states config"
  using from_config_dict [OF assms(1,2), of H deserialize] assms(3) by (simp add: map_of_map)

theorem from_config_updates_config_in_place_witness:
  "map_of [(''image'', SpecDict [None, Some 8, Some 172, Some 172, Some 3]),
           (''states'', Spec (InputSpec [None, Some 4]) :: shape spec_value)] ''image'' =
     Some (SpecDict [None, Some 8, Some 172, Some 172, Some 3]) \<and>
   fst (from_config ClassifierHead_spec demo_deserialize demo_config) =
     demo_config\<lparr>cfg_input_specs :=
        Some [(''image'', Spec (InputSpec [None, Some 8, Some 172, Some 172, Some 3])),
              (''states'', Spec (InputSpec [None, Some 4]))]\<rparr>"
proof -
  have h1: "cfg_input_specs demo_config =
     Some [(''image'', SpecDict [None, Some 8, Some 172, Some 172, Some 3]),
           (''states'', Spec (InputSpec [None, Some 4]))]"
    by (simp add: demo_config_def)
  have h2: "is_dict [(''image'', SpecDict [None, Some 8, Some 172, Some 172, Some 3]),
            (''states'', Spec (InputSpec [None, Some 4]) :: shape spec_value)]"
    by (simp add: is_dict_def)
  have h3: "map_of [(''image'', SpecDict [None, Some 8, Some 172, Some 172, Some 3]),
           (''states'', Spec (InputSpec [None, Some 4]) :: shape spec_value)] ''image'' =
     Some (SpecDict [None, Some 8, Some 172, Some 172, Some 3])"
    by simp
  have "fst (from_config ClassifierHead_spec demo_deserialize demo_config) =
     demo_config\<lparr>cfg_input_specs :=
        Some [(''image'', Spec (InputSpec [None, Some 8, Some 172, Some 172, Some 3])),
              (''states'', Spec (InputSpec [None, Some 4]))]\<rparr>"
    using from_config_updates_config_in_place [OF h1 h2 h3, of ClassifierHead_spec demo_deserialize]
    by (auto simp: demo_deserialize_def)
  with h3 show ?thesis by blast
qed

text \<open>
  Claim C10. The constructor needs the key \<^verbatim>\<open>'image'\<close> in a non-empty
  \<^verbatim>\<open>input_specs\<close>. For a mapping of spec objects, as the signature declares it: when
  the mapping is non-empty and lacks \<^verbatim>\<open>'image'\<close>, the construction ends with the key
  error of \<^verbatim>\<open>inputs['image']\<close> and the backbone has not been invoked; when the mapping
  is empty or has the key \<^verbatim>\<open>'image'\<close>, and when \<^verbatim>\<open>input_specs\<close> is \<^verbatim>\<open>None\<close>, the
  lookup finds the image placeholder and the backbone is invoked with it.
\<close>

theorem image_key_required:
  assumes "spec_mapping (sp :: 'd specs)"
  shows "(sp \<noteq> [] \<and> ''image'' \<notin> fst ` set sp \<longrightarrow>
            MovinetClassifier_init H b n (Some sp) dr ki kr br os kw =
              \<lparr>backbone_calls = [], result = Inl (KeyError ''image'')\<rparr>) \<and>
         (sp = [] \<or> ''image'' \<in> fst ` set sp \<longrightarrow>
            (\<exists>inputs img. make_inputs (effective_input_specs (Some sp)) = Inr inputs \<and>
               map_of inputs ''image'' = Some img \<and>
               backbone_calls (MovinetClassifier_init H b n (Some sp) dr ki kr br os kw) =
                 [\<lparr>image = img, states = get_states inputs\<rparr>])) \<and>
         (\<exists>inputs img. make_inputs (effective_input_specs (None :: 'd specs option)) = Inr inputs \<and>
               map_of inputs ''image'' = Some img \<and>
               backbone_calls (MovinetClassifier_init H b n (None :: 'd specs option) dr ki kr br os kw) =
                 [\<lparr>image = img, states = get_states inputs\<rparr>])"
proof (intro conjI impI)
  assume a: "sp \<noteq> [] \<and> ''image'' \<notin> fst ` set sp"
  then have eff: "effective_input_specs (Some sp) = sp" by (cases sp) simp_all
  from assms obtain inputs where i: "make_inputs sp = Inr inputs"
    using make_inputs_Inr_iff by blast
  with a have "map_of inputs ''image'' = None" by (simp add: make_inputs_has_key)
  with i eff show "MovinetClassifier_init H b n (Some sp) dr ki kr br os kw =
              \<lparr>backbone_calls = [], result = Inl (KeyError ''image'')\<rparr>"
    by (intro init_no_image) simp_all
next
  have dflt: "\<exists>inputs img. make_inputs (default_input_specs :: 'd specs) = Inr inputs \<and>
      map_of inputs ''image'' = Some img"
    by (simp add: default_input_specs_def)
  {
    fix specs :: "'d specs option"
    assume "\<exists>inputs img. make_inputs (effective_input_specs specs) = Inr inputs \<and>
      map_of inputs ''image'' = Some img"
    then obtain inputs img where
      "make_inputs (effective_input_specs specs) = Inr inputs" "map_of inputs ''image'' = Some img"
      by blast
    then have "\<exists>inputs img. make_inputs (effective_input_specs specs) = Inr inputs \<and>
               map_of inputs ''image'' = Some img \<and>
               backbone_calls (MovinetClassifier_init H b n specs dr ki kr br os kw) =
                 [\<lparr>image = img, states = get_states inputs\<rparr>]"
      using init_calls_backbone by blast
  }
  note run = this
  show "\<exists>inputs img. make_inputs (effective_input_specs (None :: 'd specs option)) = Inr inputs \<and>
               map_of inputs ''image'' = Some img \<and>
               backbone_calls (MovinetClassifier_init H b n (None :: 'd specs option) dr ki kr br os kw) =
                 [\<lparr>image = img, states = get_states inputs\<rparr>]"
    using dflt by (intro run) simp
  assume a: "sp = [] \<or> ''image'' \<in> fst ` set sp"
  show "\<exists>inputs img. make_inputs (effective_input_specs (Some sp)) = Inr inputs \<and>
               map_of inputs ''image'' = Some img \<and>
               backbone_calls (MovinetClassifier_init H b n (Some sp) dr ki kr br os kw) =
                 [\<lparr>image = img, states = get_states inputs\<rparr>]"
  proof (cases "sp = []")
    case True
    then show ?thesis using dflt by (intro run) simp
  next
    case False
    then have eff: "effective_input_specs (Some sp) = sp" by (cases sp) simp_all
    from assms obtain inputs where i: "make_inputs sp = Inr inputs"
      using make_inputs_Inr_iff by blast
    with a False have "map_of inputs ''image'' \<noteq> None" by (simp add: make_inputs_has_key)
    with i eff show ?thesis by (intro run) auto
  qed
qed

theorem image_key_required_witness:
  "spec_mapping [(''clip'', Spec (InputSpec [None, Some 8]) :: unit spec_value)] \<and>
   MovinetClassifier_init ClassifierHead_spec demo_backbone 10
       (Some [(''clip'', Spec (InputSpec [None, Some 8]) :: unit spec_value)]) 0 ''HeNormal'' (None :: unit option) None False [] =
     \<lparr>backbone_calls = [], result = Inl (KeyError ''image'')\<rparr> \<and>
   spec_mapping [(''image'', Spec (InputSpec [None, Some 8, Some 172, Some 172, Some 3]) :: unit spec_value)] \<and>
   backbone_calls (MovinetClassifier_init ClassifierHead_spec demo_backbone 10
       (Some [(''image'', Spec (InputSpec [None, Some 8, Some 172, Some 172, Some 3]) :: unit spec_value)])
       0 ''HeNormal'' (None :: unit option) None False []) =
     [\<lparr>image = keras_Input [Some 8, Some 172, Some 172, Some 3] ''states/image'', states = StateDict []\<rparr>]"
proof -
  have h1: "spec_mapping [(''clip'', Spec (InputSpec [None, Some 8]) :: unit spec_value)]"
    by (simp add: spec_mapping_def)
  have h2: "spec_mapping [(''image'', Spec (InputSpec [None, Some 8, Some 172, Some 172, Some 3]) :: unit spec_value)]"
    by (simp add: spec_mapping_def)
  have "MovinetClassifier_init ClassifierHead_spec demo_backbone 10
       (Some [(''clip'', Spec (InputSpec [None, Some 8]) :: unit spec_value)]) 0 ''HeNormal'' (None :: unit option) None False [] =
     \<lparr>backbone_calls = [], result = Inl (KeyError ''image'')\<rparr>"
    using image_key_required [OF h1, of "ClassifierHead_spec :: unit classifier_head" demo_backbone 10 0
        "''HeNormal''" "None :: unit option" "None :: unit option" False "[]"]
    by simp
  moreover have "backbone_calls (MovinetClassifier_init ClassifierHead_spec demo_backbone 10
       (Some [(''image'', Spec (InputSpec [None, Some 8, Some 172, Some 172, Some 3]) :: unit spec_value)])
       0 ''HeNormal'' (None :: unit option) None False []) =
     [\<lparr>image = keras_Input [Some 8, Some 172, Some 172, Some 3] ''states/image'', states = StateDict []\<rparr>]"
    using image_key_required [OF h2, of "ClassifierHead_spec :: unit classifier_head" demo_backbone 10 0
        "''HeNormal''" "None :: unit option" "None :: unit option" False "[]"]
    by (auto simp: get_states_def)
  ultimately show ?thesis using h1 h2 by blast
qed

end
